theory Spec2Isabelle
  imports Main
begin

section \<open>Data model (types.ts)\<close>

text \<open>
  JavaScript numbers that carry coordinates are kept abstract: the type parameter \<open>'n\<close>
  stands for them, and their rendering in a template literal is a parameter of the
  operations that print them. Strings are lists of code units; the literals of the source
  stay within Latin-1, so every code unit of a literal is one \<open>char\<close>.
\<close>

record 'n GeolocationCoordinates =
  latitude :: 'n
  longitude :: 'n
  accuracy :: 'n
  altitude :: "'n option"
  altitudeAccuracy :: "'n option"
  heading :: "'n option"
  speed :: "'n option"

record 'n User =
  user_id :: string
  user_name :: string
  password :: "string option"
  isOnline :: "bool option"
  lastKnownLocation :: "'n GeolocationCoordinates option"

record Group =
  group_id :: string
  group_name :: string
  members :: "string list"
  creatorId :: string

datatype message_kind = Text | Location | Ai_query | Ai_response

record Message =
  message_id :: string
  chatId :: string
  senderId :: string
  senderName :: string
  content :: string
  timestamp :: int
  message_type :: message_kind

datatype chat_kind = Chat_user | Chat_group

record Chat =
  chat_id :: string
  chat_type :: chat_kind
  chat_name :: string
  targetId :: string
  unreadCount :: "nat option"
  lastMessage :: "string option"
  avatarSeed :: "string option"

datatype ActiveCallType = NONE | VIDEO | VOICE

section \<open>JavaScript values and string helpers\<close>

text \<open>
  A value that a rejected promise or a \<open>throw\<close> can carry, and that a property can hold. A
  number is given by its string form, the result of \<open>Number.prototype.toString\<close>, which
  identifies the number up to the sign of zero: \<open>Num ''1''\<close> is the number 1, \<open>Num ''1e+21''\<close>
  is ten to the power 21, \<open>Num ''NaN''\<close> is NaN. A function or an object carries the result of
  converting it to a string: the string, or the value the conversion throws (an object
  without \<open>toString\<close>, or one whose \<open>toString\<close> throws). An object further carries its
  properties, as the \<open>in\<close> operator and a property read see them (data properties, own or
  inherited), and whether it is an \<open>instanceof Error\<close>.
\<close>

datatype js_value =
    Undefined | Null | Bool bool | Num string | BigInt int | Str string | Symbol
  | Function "js_value + string"
  | Obj (props: "(string \<times> js_value) list") (instanceofError: bool)
        (stringCoercion: "js_value + string")

abbreviation (input) e_acute :: string where "e_acute \<equiv> [CHR 0xE9]"
abbreviation (input) apostrophe :: string where "apostrophe \<equiv> [CHR 0x27]"

fun digit :: "nat \<Rightarrow> char" where
  "digit n = ''0123456789'' ! n"

function nat_toString :: "nat \<Rightarrow> string" where
  "nat_toString n =
     (if n < 10 then [digit n] else nat_toString (n div 10) @ [digit (n mod 10)])"
  by pat_completeness auto
termination
  by (relation "measure (\<lambda>n. n)") auto

declare nat_toString.simps [simp del]

text \<open>The decimal numeral of an integer, with a minus sign when it is negative.\<close>

definition decimal :: "int \<Rightarrow> string" where
  "decimal i = (if i < 0 then ''-'' @ nat_toString (nat (- i)) else nat_toString (nat i))"

text \<open>
  \<open>toString\<close> on a reading of \<open>Date.now()\<close>. The reading is a time value: an integral number
  of milliseconds, below ten to the power 16 in magnitude, and \<open>toString\<close> prints such a number
  as its decimal numeral.
\<close>

definition timeValue_toString :: "int \<Rightarrow> string" where
  "timeValue_toString t = decimal t"






definition lower_char :: "char \<Rightarrow> char" where
  "lower_char c =
     (let n = (of_char c :: nat)
      in if (65 \<le> n \<and> n \<le> 90) \<or> (192 \<le> n \<and> n \<le> 222 \<and> n \<noteq> 215)
         then char_of (n + 32) else c)"

definition toLowerCase :: "string \<Rightarrow> string" where
  "toLowerCase s = map lower_char s"

section \<open>Collaborators\<close>


datatype ai_result = AiMessage Message | AiNull | AiError js_value

datatype MediaStreamAndTracks = MediaStreamAndTracks (stream: nat)

datatype media_result = Media MediaStreamAndTracks | MediaError js_value

datatype release_result = Released | ReleaseFailed js_value

datatype completion = Returned | Threw js_value

datatype media_call = StartLocalMedia bool | StopLocalMedia

datatype settled = Resolved | Rejected js_value

record 'n storage =
  storedMessages :: "string \<Rightarrow> Message list"
  storedUsers :: "'n User list"

text \<open>
  Modelled from the spec: \<open>userService.getMessages\<close> is not among the sources; it returns
  all messages stored for a chat, in stored order.
\<close>

definition getMessages :: "string \<Rightarrow> 'n storage \<Rightarrow> Message list" where
  "getMessages cid st = storedMessages st cid"

text \<open>
  Modelled from the spec: \<open>userService.addMessage\<close> is not among the sources; it appends
  the message to the chat's stored list and returns the full updated list.
\<close>

definition addMessage :: "string \<Rightarrow> Message \<Rightarrow> 'n storage \<Rightarrow> Message list \<times> 'n storage" where
  "addMessage cid m st =
     (let updated = storedMessages st cid @ [m]
      in (updated, st\<lparr>storedMessages := (storedMessages st)(cid := updated)\<rparr>))"



section \<open>The provider's state (App.tsx, AppProvider)\<close>

datatype NotificationPermission = Permission_default | Granted | Denied

record Notification =
  title :: string
  body :: string
  icon :: string
  tag :: string

text \<open>
  The first eleven fields are the \<open>useState\<close> cells of \<open>AppProvider\<close>. The last three are
  the world outside it: the persistent store behind \<open>userService\<close>, the calls made to the
  media service, and the notifications the platform has shown.
\<close>

record 'n AppContext =
  notificationPermission :: NotificationPermission
  lastNotifiedMessageId :: "string option"
  currentUser :: "'n User option"
  users :: "'n User list"
  groups :: "Group list"
  activeChat :: "Chat option"
  messages :: "Message list"
  activeCallType :: ActiveCallType
  localMediaStreamAndTracks :: "MediaStreamAndTracks option"
  isCallViewVisible :: bool
  isLoadingAI :: bool
  persistence :: "'n storage"
  mediaCalls :: "media_call list"
  notifications :: "Notification list"

section \<open>Message pipeline: \<open>sendMessage\<close>\<close>

text \<open>The \<open>type\<close> argument of \<open>sendMessage\<close>: one of \<open>'text' | 'location' | 'ai_query'\<close>.\<close>

datatype send_kind = Send_text | Send_location | Send_ai_query

fun kind_of :: "send_kind \<Rightarrow> message_kind" where
  "kind_of Send_text = Text"
| "kind_of Send_location = Location"
| "kind_of Send_ai_query = Ai_query"

text \<open>
  The record built at the top of \<open>sendMessage\<close>. \<open>Date.now()\<close> is read twice, first for the
  \<open>id\<close> and then for the \<open>timestamp\<close>; \<open>now_id\<close> and \<open>now_ts\<close> are the two readings.
\<close>

definition newMessage :: "int \<Rightarrow> int \<Rightarrow> Chat \<Rightarrow> 'n User \<Rightarrow> string \<Rightarrow> send_kind \<Rightarrow> Message" where
  "newMessage now_id now_ts c u contents kind =
     \<lparr>message_id = timeValue_toString now_id,
      chatId = chat_id c,
      senderId = user_id u,
      senderName = user_name u,
      content = contents,
      timestamp = now_ts,
      message_type = kind_of kind\<rparr>"

text \<open>
  An \<open>async\<close> function runs without interruption from one \<open>await\<close> to the next, and the
  state writes of such a stretch are committed together. \<open>sendMessage\<close> has one \<open>await\<close>,
  on \<open>askAI\<close>, reached only for an \<open>ai_query\<close>; so it is two stretches.

  \<open>sendMessage_start\<close> is the stretch up to the \<open>await\<close>: the guard, the new record,
  \<open>addMessage\<close>, \<open>setMessages\<close>, and for an \<open>ai_query\<close> \<open>setIsLoadingAI(true)\<close>. It returns
  the user and chat the pending call has captured when it stops at the \<open>await\<close>, and \<open>None\<close>
  when the function has returned. \<open>now\<close> holds the two readings of \<open>Date.now()\<close>.
\<close>

definition sendMessage_start ::
  "int \<times> int \<Rightarrow> string \<Rightarrow> send_kind \<Rightarrow> 'n AppContext \<Rightarrow> ('n User \<times> Chat) option \<times> 'n AppContext" where
  "sendMessage_start now contents kind s =
     (case currentUser s of
        None \<Rightarrow> (None, s)
      | Some u \<Rightarrow>
          (case activeChat s of
             None \<Rightarrow> (None, s)
           | Some c \<Rightarrow>
               (let (updatedMessages, st) =
                      addMessage (chat_id c) (newMessage (fst now) (snd now) c u contents kind) (persistence s);
                    s1 = s\<lparr>persistence := st, messages := updatedMessages\<rparr>
                in if kind = Send_ai_query
                   then (Some (u, c), s1\<lparr>isLoadingAI := True\<rparr>)
                   else (None, s1))))"

text \<open>
  \<open>sendMessage_resume\<close> is the stretch after the \<open>await\<close>. A rejected \<open>askAI\<close> leaves the
  function at the \<open>await\<close>: nothing after it runs and the promise of \<open>sendMessage\<close> rejects.
\<close>

definition sendMessage_resume :: "ai_result \<Rightarrow> Chat \<Rightarrow> 'n AppContext \<Rightarrow> settled \<times> 'n AppContext" where
  "sendMessage_resume aiResponse c s =
     (case aiResponse of
        AiError e \<Rightarrow> (Rejected e, s)
      | AiNull \<Rightarrow> (Resolved, s\<lparr>isLoadingAI := False\<rparr>)
      | AiMessage r \<Rightarrow>
          (let (updatedAiMessages, st) = addMessage (chat_id c) r (persistence s)
           in (Resolved, s\<lparr>persistence := st, messages := updatedAiMessages, isLoadingAI := False\<rparr>)))"

text \<open>One whole invocation, with nothing else running during the \<open>await\<close>.\<close>

definition sendMessage ::
  "(string \<Rightarrow> 'n User \<Rightarrow> ai_result) \<Rightarrow> int \<times> int \<Rightarrow> string \<Rightarrow> send_kind \<Rightarrow> 'n AppContext
     \<Rightarrow> settled \<times> 'n AppContext" where
  "sendMessage askAI now contents kind s =
     (case sendMessage_start now contents kind s of
        (None, s1) \<Rightarrow> (Resolved, s1)
      | (Some (u, c), s1) \<Rightarrow> sendMessage_resume (askAI contents u) c s1)"


text \<open>
  The joint effect of \<open>userService.addMessage(cid, m)\<close> and \<open>setMessages\<close> of its result:
  \<open>m\<close> is appended to the stored list of chat \<open>cid\<close>, and the observable list becomes the
  stored list.
\<close>

definition appendTo :: "string \<Rightarrow> Message \<Rightarrow> 'n AppContext \<Rightarrow> 'n AppContext" where
  "appendTo cid m s =
     s\<lparr>persistence := (persistence s)\<lparr>storedMessages :=
          (storedMessages (persistence s))(cid := storedMessages (persistence s) cid @ [m])\<rparr>,
       messages := storedMessages (persistence s) cid @ [m]\<rparr>"

section \<open>Location flow: \<open>shareLocation\<close>\<close>









section \<open>Call lifecycle: \<open>initiateCall\<close> and \<open>endCall\<close>\<close>

text \<open>The argument of \<open>initiateCall\<close>: \<open>ActiveCallType.VOICE | ActiveCallType.VIDEO\<close>.\<close>

datatype call_request = Request_VOICE | Request_VIDEO

fun callType_of :: "call_request \<Rightarrow> ActiveCallType" where
  "callType_of Request_VOICE = VOICE"
| "callType_of Request_VIDEO = VIDEO"

fun call_word :: "call_request \<Rightarrow> string" where
  "call_word Request_VIDEO = ''vid'' @ e_acute @ ''o''"
| "call_word Request_VOICE = ''vocal''"

text \<open>
  Modelled from the spec: \<open>startLocalMedia\<close> and \<open>stopLocalMedia\<close> are not among the sources.
  Acquisition is asynchronous and may fail; what it yields is a parameter of \<open>initiateCall\<close>.
  Release may fail too: the caller is to log the failure and not let it propagate, so a
  failing \<open>stopLocalMedia()\<close> throws the failure to its caller. Both requests are recorded
  in \<open>mediaCalls\<close>, the first with its \<open>audioOnly\<close> argument.
\<close>

definition startLocalMedia :: "bool \<Rightarrow> 'n AppContext \<Rightarrow> 'n AppContext" where
  "startLocalMedia audioOnly s = s\<lparr>mediaCalls := mediaCalls s @ [StartLocalMedia audioOnly]\<rparr>"

definition stopLocalMedia :: "release_result \<Rightarrow> 'n AppContext \<Rightarrow> completion \<times> 'n AppContext" where
  "stopLocalMedia released s =
     (case released of
        Released \<Rightarrow> (Returned, s\<lparr>mediaCalls := mediaCalls s @ [StopLocalMedia]\<rparr>)
      | ReleaseFailed e \<Rightarrow> (Threw e, s\<lparr>mediaCalls := mediaCalls s @ [StopLocalMedia]\<rparr>))"

text \<open>
  \<open>started\<close> is what the awaited \<open>startLocalMedia(null, callType === VOICE)\<close> yields: a stream,
  or the failure that the \<open>catch\<close> receives. The status message goes through \<open>sendMessage\<close>,
  which for a text message has no \<open>await\<close> and so has run when \<open>initiateCall\<close> returns.
\<close>

definition initiateCall ::
  "(string \<Rightarrow> 'n User \<Rightarrow> ai_result) \<Rightarrow> media_result \<Rightarrow> int \<times> int \<Rightarrow> call_request
     \<Rightarrow> 'n AppContext \<Rightarrow> 'n AppContext" where
  "initiateCall askAI started now callType s =
     (case activeChat s of
        None \<Rightarrow> s
      | Some c \<Rightarrow>
          (let s0 = startLocalMedia (callType = Request_VOICE) s
           in case started of
                Media media \<Rightarrow>
                  snd (sendMessage askAI now
                         (''Appel '' @ call_word callType @ '' d'' @ e_acute @ ''marr'' @ e_acute
                            @ '' (simulation).'') Send_text
                         (s0\<lparr>localMediaStreamAndTracks := Some media,
                              activeCallType := callType_of callType,
                              isCallViewVisible := True\<rparr>))
              | MediaError e \<Rightarrow>
                  snd (sendMessage askAI now
                         (''Impossible de d'' @ e_acute @ ''marrer l'' @ apostrophe @ ''appel ''
                            @ call_word callType @ ''.'') Send_text s0)))"

text \<open>
  \<open>endCall\<close> calls \<open>stopLocalMedia()\<close> with no \<open>try\<close> around it, then writes the three call
  cells, then sends the status message when there is an active chat. When the call throws,
  \<open>endCall\<close> ends there with the same throw.
\<close>

definition endCall ::
  "(string \<Rightarrow> 'n User \<Rightarrow> ai_result) \<Rightarrow> release_result \<Rightarrow> int \<times> int \<Rightarrow> 'n AppContext
     \<Rightarrow> completion \<times> 'n AppContext" where
  "endCall askAI released now s =
     (case stopLocalMedia released s of
        (Threw e, s0) \<Rightarrow> (Threw e, s0)
      | (Returned, s0) \<Rightarrow>
          (let s1 = s0\<lparr>localMediaStreamAndTracks := None,
                      activeCallType := NONE,
                      isCallViewVisible := False\<rparr>
           in case activeChat s of
                None \<Rightarrow> (Returned, s1)
              | Some c \<Rightarrow>
                  (Returned,
                   snd (sendMessage askAI now (''Appel termin'' @ e_acute @ '' (simulation).'')
                          Send_text s1))))"

section \<open>Notification dispatcher and the effects keyed on the active chat\<close>













section \<open>States of the call lifecycle\<close>

text \<open>
  The states reached from a provider with no call (the initial values of the three call
  cells; the rest of the state is free) by invoking \<open>initiateCall\<close> and \<open>endCall\<close>, whatever
  the collaborators answer, also when \<open>endCall\<close> ends with a throw.
\<close>

inductive reachable :: "'n AppContext \<Rightarrow> bool" where
  no_call: "activeCallType s = NONE \<Longrightarrow> localMediaStreamAndTracks s = None
              \<Longrightarrow> \<not> isCallViewVisible s \<Longrightarrow> reachable s"
| called: "reachable s \<Longrightarrow> reachable (initiateCall askAI started now callType s)"
| ended: "reachable s \<Longrightarrow> reachable (snd (endCall askAI released now s))"

section \<open>Concrete sessions\<close>

text \<open>
  A small session on which the operations are evaluated: Alice is signed in and has her chat
  with Bob open; nothing is stored yet, no call is active.
\<close>

definition alice :: "int User" where
  "alice = \<lparr>user_id = ''u1'', user_name = ''Alice'', password = None, isOnline = None,
            lastKnownLocation = None\<rparr>"

definition bob :: "int User" where
  "bob = \<lparr>user_id = ''u2'', user_name = ''Bob'', password = None, isOnline = None,
          lastKnownLocation = None\<rparr>"

definition room :: Chat where
  "room = \<lparr>chat_id = ''u1_u2'', chat_type = Chat_user, chat_name = ''Bob'', targetId = ''u2'',
           unreadCount = None, lastMessage = None, avatarSeed = None\<rparr>"

definition session :: "int AppContext" where
  "session =
     \<lparr>notificationPermission = Granted,
      lastNotifiedMessageId = None,
      currentUser = Some alice,
      users = [alice, bob],
      groups = [],
      activeChat = Some room,
      messages = [],
      activeCallType = NONE,
      localMediaStreamAndTracks = None,
      isCallViewVisible = False,
      isLoadingAI = False,
      persistence = \<lparr>storedMessages = (\<lambda>cid. []), storedUsers = [alice, bob]\<rparr>,
      mediaCalls = [],
      notifications = []\<rparr>"

text \<open>The same session after Alice has signed out while the chat is still selected.\<close>

definition signedOut :: "int AppContext" where
  "signedOut = session\<lparr>currentUser := None\<rparr>"



definition silentAI :: "string \<Rightarrow> int User \<Rightarrow> ai_result" where
  "silentAI query asking = AiNull"

definition failingAI :: "string \<Rightarrow> int User \<Rightarrow> ai_result" where
  "failingAI query asking = AiError (Str ''quota exceeded'')"









text \<open>The session during a video call on stream 1.\<close>

definition videoCall :: "int AppContext" where
  "videoCall =
     initiateCall silentAI (Media (MediaStreamAndTracks 1)) (1000, 1000) Request_VIDEO session"


section \<open>Auxiliary facts\<close>

lemma nat_toString_small: "n < 10 \<Longrightarrow> nat_toString n = [digit n]"
  by (simp add: nat_toString.simps)

lemma nat_toString_big:
  "\<not> n < 10 \<Longrightarrow> nat_toString n = nat_toString (n div 10) @ [digit (n mod 10)]"
  by (subst nat_toString.simps) simp

lemma nat_toString_nonempty: "nat_toString n \<noteq> []"
  by (subst nat_toString.simps) simp

lemma decimal_nonempty: "decimal i \<noteq> []"
  by (simp add: decimal_def nat_toString_nonempty)

lemma digit_inj: "a < 10 \<Longrightarrow> b < 10 \<Longrightarrow> digit a = digit b \<Longrightarrow> a = b"
proof -
  assume a: "a < 10" and b: "b < 10" and e: "digit a = digit b"
  have d: "distinct ''0123456789''" by simp
  have "length ''0123456789'' = 10" by simp
  with a b e d show "a = b"
    by (simp add: nth_eq_iff_index_eq del: distinct.simps)
qed

lemma digit_not_minus: "n < 10 \<Longrightarrow> digit n \<noteq> CHR ''-''"
proof -
  assume "n < 10"
  then have "digit n \<in> set ''0123456789''"
    by (simp del: set_simps list.set)
  then show ?thesis by auto
qed

text \<open>Different numbers have different decimal numerals.\<close>

lemma nat_toString_inj: "nat_toString n = nat_toString m \<Longrightarrow> n = m"
proof (induction n arbitrary: m rule: nat_toString.induct)
  case (1 n)
  show ?case
  proof (cases "n < 10")
    case small: True
    show ?thesis
    proof (cases "m < 10")
      case True
      with small "1.prems" show ?thesis
        by (simp add: nat_toString_small digit_inj del: digit.simps)
    next
      case False
      with small "1.prems" nat_toString_nonempty [of "m div 10"] show ?thesis
        by (simp add: nat_toString_small nat_toString_big del: digit.simps)
    qed
  next
    case big: False
    show ?thesis
    proof (cases "m < 10")
      case True
      with big "1.prems" nat_toString_nonempty [of "n div 10"] show ?thesis
        by (simp add: nat_toString_small nat_toString_big del: digit.simps)
    next
      case False
      with big "1.prems" have p: "nat_toString (n div 10) = nat_toString (m div 10)"
        and d: "digit (n mod 10) = digit (m mod 10)"
        by (simp_all add: nat_toString_big del: digit.simps)
      from "1.IH" [OF big p] have q: "n div 10 = m div 10" .
      from d have r: "n mod 10 = m mod 10"
        by (intro digit_inj) simp_all
      from q r show ?thesis
        by (metis div_mult_mod_eq)
    qed
  qed
qed

lemma nat_toString_hd: "hd (nat_toString n) \<noteq> CHR ''-''"
proof (induction n rule: nat_toString.induct)
  case (1 n)
  show ?case
  proof (cases "n < 10")
    case True
    then show ?thesis by (simp add: nat_toString_small digit_not_minus del: digit.simps)
  next
    case False
    with "1.IH" nat_toString_nonempty [of "n div 10"] show ?thesis
      by (simp add: nat_toString_big del: digit.simps)
  qed
qed

lemma decimal_inj: "decimal i = decimal j \<Longrightarrow> i = j"
proof -
  assume e: "decimal i = decimal j"
  have neg: "\<And>a b. ''-'' @ nat_toString a \<noteq> nat_toString b"
  proof
    fix a b assume "''-'' @ nat_toString a = nat_toString b"
    then have "hd (nat_toString b) = CHR ''-''"
      by (metis append_Cons list.sel(1))
    with nat_toString_hd [of b] show False by simp
  qed
  show "i = j"
  proof (cases "i < 0")
    case True
    show ?thesis
    proof (cases "j < 0")
      case jn: True
      with True e have "nat (- i) = nat (- j)" by (simp add: decimal_def nat_toString_inj)
      with True jn show ?thesis by simp
    next
      case False
      with True e neg [of "nat (- i)" "nat j"] show ?thesis by (simp add: decimal_def)
    qed
  next
    case False
    show ?thesis
    proof (cases "j < 0")
      case True
      with False e neg [of "nat (- j)" "nat i"] show ?thesis by (simp add: decimal_def)
    next
      case jp: False
      with False e have "nat i = nat j" by (simp add: decimal_def nat_toString_inj)
      with False jp show ?thesis by simp
    qed
  qed
qed

lemma timeValue_toString_eq: "timeValue_toString a = timeValue_toString b \<longleftrightarrow> a = b"
  by (auto simp: timeValue_toString_def dest: decimal_inj)

lemma sendMessage_start_absent:
  "currentUser s = None \<or> activeChat s = None \<Longrightarrow> sendMessage_start now contents kind s = (None, s)"
  by (auto simp: sendMessage_start_def split: option.splits)

lemma sendMessage_start_query:
  "currentUser s = Some u \<Longrightarrow> activeChat s = Some c \<Longrightarrow>
   sendMessage_start now contents Send_ai_query s =
     (Some (u, c),
      (appendTo (chat_id c) (newMessage (fst now) (snd now) c u contents Send_ai_query) s)
        \<lparr>isLoadingAI := True\<rparr>)"
  by (simp add: sendMessage_start_def addMessage_def appendTo_def Let_def)

lemma sendMessage_start_plain:
  "currentUser s = Some u \<Longrightarrow> activeChat s = Some c \<Longrightarrow> kind \<noteq> Send_ai_query \<Longrightarrow>
   sendMessage_start now contents kind s =
     (None, appendTo (chat_id c) (newMessage (fst now) (snd now) c u contents kind) s)"
  by (simp add: sendMessage_start_def addMessage_def appendTo_def Let_def)

lemma sendMessage_plain:
  "currentUser s = Some u \<Longrightarrow> activeChat s = Some c \<Longrightarrow> kind \<noteq> Send_ai_query \<Longrightarrow>
   sendMessage askAI now contents kind s =
     (Resolved, appendTo (chat_id c) (newMessage (fst now) (snd now) c u contents kind) s)"
  by (simp add: sendMessage_def sendMessage_start_plain)

lemma sendMessage_absent:
  "currentUser s = None \<or> activeChat s = None \<Longrightarrow>
   sendMessage askAI now contents kind s = (Resolved, s)"
  by (simp add: sendMessage_def sendMessage_start_absent)


lemma sendMessage_query:
  "currentUser s = Some u \<Longrightarrow> activeChat s = Some c \<Longrightarrow>
   sendMessage askAI now contents Send_ai_query s =
     sendMessage_resume (askAI contents u) c
       ((appendTo (chat_id c) (newMessage (fst now) (snd now) c u contents Send_ai_query) s)
          \<lparr>isLoadingAI := True\<rparr>)"
  by (simp add: sendMessage_def sendMessage_start_query)

lemma sendMessage_keeps_context:
  "currentUser (snd (sendMessage askAI now contents kind s)) = currentUser s
   \<and> activeChat (snd (sendMessage askAI now contents kind s)) = activeChat s"
  by (simp add: sendMessage_def sendMessage_start_def sendMessage_resume_def addMessage_def Let_def
      split: option.splits ai_result.splits prod.splits)

section \<open>The message pipeline\<close>

text \<open>
  C4. With a current user and an active chat, \<open>sendMessage\<close> of a text message resolves after
  appending exactly one message to the stored list of the active chat: that list grows by
  the one new record, the lists of the other chats stay as they are, the observable list is
  the stored list (so it grows by exactly that record when it agreed with the store before),
  and nothing else in the state changes. The record has the current user's id as
  \<open>senderId\<close>, the active chat's id as \<open>chatId\<close>, and type \<open>text\<close>. Without a current user or
  without an active chat, \<open>sendMessage\<close> of any type returns the state as it found it.
\<close>

theorem sendMessage_text_appends_one:
  "(currentUser s = Some u \<and> activeChat s = Some c \<longrightarrow>
      (let m = newMessage (fst now) (snd now) c u contents Send_text;
           s' = snd (sendMessage askAI now contents Send_text s)
       in fst (sendMessage askAI now contents Send_text s) = Resolved
          \<and> getMessages (chat_id c) (persistence s') = getMessages (chat_id c) (persistence s) @ [m]
          \<and> (\<forall>cid. cid \<noteq> chat_id c \<longrightarrow>
                getMessages cid (persistence s') = getMessages cid (persistence s))
          \<and> messages s' = getMessages (chat_id c) (persistence s')
          \<and> (messages s = getMessages (chat_id c) (persistence s) \<longrightarrow> messages s' = messages s @ [m])
          \<and> senderId m = user_id u \<and> chatId m = chat_id c \<and> message_type m = Text
          \<and> content m = contents
          \<and> s' = s\<lparr>persistence := persistence s', messages := messages s'\<rparr>))
   \<and> (currentUser s = None \<or> activeChat s = None \<longrightarrow>
        sendMessage askAI now contents kind s = (Resolved, s))"
  by (auto simp: sendMessage_plain sendMessage_absent appendTo_def getMessages_def newMessage_def
        Let_def)

theorem sendMessage_text_appends_one_witness:
  "currentUser session = Some alice \<and> activeChat session = Some room
   \<and> messages session = getMessages (chat_id room) (persistence session)
   \<and> messages (snd (sendMessage silentAI (1000, 1000) ''hello'' Send_text session))
       = [newMessage 1000 1000 room alice ''hello'' Send_text]
   \<and> senderId (newMessage 1000 1000 room alice ''hello'' Send_text) = ''u1''
   \<and> currentUser signedOut = None
   \<and> sendMessage silentAI (1000, 1000) ''hello'' Send_text signedOut = (Resolved, signedOut)"
  using sendMessage_text_appends_one [where s = session and u = alice and c = room
          and now = "(1000, 1000)" and contents = "''hello''" and askAI = silentAI
          and kind = Send_text]
        sendMessage_text_appends_one [where s = signedOut and u = alice and c = room
          and now = "(1000, 1000)" and contents = "''hello''" and askAI = silentAI
          and kind = Send_text]
  by (simp add: session_def signedOut_def getMessages_def Let_def alice_def)

text \<open>
  C1. Alice sends an \<open>ai_query\<close> and the promise of \<open>askAI\<close> rejects. The invocation rejects
  with the same value; the query has been appended exactly once; and the loading flag, set
  before the \<open>await\<close>, is still true, because \<open>setIsLoadingAI(false)\<close> is only reached
  when \<open>askAI\<close> resolves. When \<open>askAI\<close> resolves with \<open>null\<close> the flag is false afterwards.
\<close>

theorem sendMessage_ai_failure_keeps_loading:
  "sendMessage failingAI (1000, 1000) ''why?'' Send_ai_query session
     = (Rejected (Str ''quota exceeded''),
        (appendTo ''u1_u2'' (newMessage 1000 1000 room alice ''why?'' Send_ai_query) session)
          \<lparr>isLoadingAI := True\<rparr>)
   \<and> isLoadingAI (snd (sendMessage failingAI (1000, 1000) ''why?'' Send_ai_query session))
   \<and> messages (snd (sendMessage failingAI (1000, 1000) ''why?'' Send_ai_query session))
       = [newMessage 1000 1000 room alice ''why?'' Send_ai_query]
   \<and> \<not> isLoadingAI (snd (sendMessage silentAI (1000, 1000) ''why?'' Send_ai_query session))"
  by (simp add: sendMessage_query [where u = alice and c = room] sendMessage_resume_def
        failingAI_def silentAI_def appendTo_def session_def room_def)



lemma sendMessage_start_creates:
  "currentUser s = Some u \<Longrightarrow> activeChat s = Some c \<Longrightarrow>
   messages (snd (sendMessage_start now contents kind s))
     = getMessages (chat_id c) (persistence s) @ [newMessage (fst now) (snd now) c u contents kind]"
  by (cases "kind = Send_ai_query")
     (simp_all add: sendMessage_start_query sendMessage_start_plain appendTo_def getMessages_def)

lemma number_1000: "timeValue_toString 1000 = ''1000''"
  by (simp add: timeValue_toString_def decimal_def nat_toString_small nat_toString_big)

lemma number_1001: "timeValue_toString 1001 = ''1001''"
  by (simp add: timeValue_toString_def decimal_def nat_toString_small nat_toString_big)

lemma number_2000: "timeValue_toString 2000 = ''2000''"
  by (simp add: timeValue_toString_def decimal_def nat_toString_small nat_toString_big)

text \<open>
  C9 (amended). Two invocations of \<open>sendMessage\<close>, one after the other, with a current user
  and an active chat. Each creates one record; its \<open>timestamp\<close> is the second reading of
  \<open>Date.now()\<close> in that invocation and its \<open>id\<close> is the decimal form of the first reading.
  So the later timestamp is at least the earlier one exactly when the second reading of the
  later invocation is not below that of the earlier one, strictly greater exactly when it is
  above it, and an \<open>id\<close> is the decimal form of its record's timestamp exactly when the two
  readings of its invocation agree.
\<close>

theorem sendMessage_successive_timestamps:
  assumes "currentUser s = Some u" and "activeChat s = Some c"
  shows "let s1 = snd (sendMessage askAI nowA contentsA kindA s);
             m1 = last (messages (snd (sendMessage_start nowA contentsA kindA s)));
             m2 = last (messages (snd (sendMessage_start nowB contentsB kindB s1)))
         in m1 = newMessage (fst nowA) (snd nowA) c u contentsA kindA
            \<and> m2 = newMessage (fst nowB) (snd nowB) c u contentsB kindB
            \<and> timestamp m1 = snd nowA \<and> timestamp m2 = snd nowB
            \<and> message_id m1 = timeValue_toString (fst nowA)
            \<and> message_id m2 = timeValue_toString (fst nowB)
            \<and> (timestamp m1 \<le> timestamp m2 \<longleftrightarrow> snd nowA \<le> snd nowB)
            \<and> (timestamp m1 < timestamp m2 \<longleftrightarrow> snd nowA < snd nowB)
            \<and> (message_id m1 = timeValue_toString (timestamp m1) \<longleftrightarrow> fst nowA = snd nowA)
            \<and> (message_id m2 = timeValue_toString (timestamp m2) \<longleftrightarrow> fst nowB = snd nowB)"
proof -
  have u1: "currentUser (snd (sendMessage askAI nowA contentsA kindA s)) = Some u"
    and c1: "activeChat (snd (sendMessage askAI nowA contentsA kindA s)) = Some c"
    using assms by (simp_all add: sendMessage_keeps_context)
  have m1: "last (messages (snd (sendMessage_start nowA contentsA kindA s)))
              = newMessage (fst nowA) (snd nowA) c u contentsA kindA"
    using assms by (simp add: sendMessage_start_creates)
  have m2: "last (messages (snd (sendMessage_start nowB contentsB kindB
                                   (snd (sendMessage askAI nowA contentsA kindA s)))))
              = newMessage (fst nowB) (snd nowB) c u contentsB kindB"
    using u1 c1 by (simp add: sendMessage_start_creates)
  show ?thesis
    unfolding Let_def m1 m2 by (simp add: newMessage_def timeValue_toString_eq)
qed

theorem sendMessage_successive_timestamps_witness:
  "currentUser session = Some alice \<and> activeChat session = Some room
   \<and> (1000::int) \<le> 2000 \<and> (1000::int) < 2000
   \<and> timestamp (last (messages (snd (sendMessage_start (1000, 1000) ''a'' Send_text session)))) = 1000
   \<and> timestamp (last (messages (snd (sendMessage_start (2000, 2000) ''b'' Send_text
        (snd (sendMessage silentAI (1000, 1000) ''a'' Send_text session)))))) = 2000
   \<and> message_id (last (messages (snd (sendMessage_start (2000, 2000) ''b'' Send_text
        (snd (sendMessage silentAI (1000, 1000) ''a'' Send_text session)))))) = ''2000''"
proof -
  have u: "currentUser session = Some alice" and c: "activeChat session = Some room"
    by (simp_all add: session_def)
  from sendMessage_successive_timestamps [where askAI = silentAI and nowA = "(1000, 1000)"
      and nowB = "(2000, 2000)" and contentsA = "''a''" and contentsB = "''b''"
      and kindA = Send_text and kindB = Send_text, OF u c] u c
  show ?thesis by (simp add: Let_def number_2000 newMessage_def)
qed

text \<open>
  The claim as stated asks for strictly increasing timestamps and for an \<open>id\<close> derived from
  the record's own timestamp. Two sends within millisecond 1000 get the same timestamp (and the
  same \<open>id\<close>); a send whose two readings straddle a millisecond gets \<open>id\<close> 1000 and
  timestamp 1001.
\<close>

theorem sendMessage_same_millisecond_counterexample:
  "map timestamp (messages (snd (sendMessage silentAI (1000, 1000) ''b'' Send_text
       (snd (sendMessage silentAI (1000, 1000) ''a'' Send_text session))))) = [1000, 1000]
   \<and> map content (messages (snd (sendMessage silentAI (1000, 1000) ''b'' Send_text
       (snd (sendMessage silentAI (1000, 1000) ''a'' Send_text session))))) = [''a'', ''b'']
   \<and> map message_id (messages (snd (sendMessage silentAI (1000, 1001) ''c'' Send_text session)))
        = [''1000'']
   \<and> map (timeValue_toString \<circ> timestamp)
        (messages (snd (sendMessage silentAI (1000, 1001) ''c'' Send_text session))) = [''1001'']"
proof -
  have u: "currentUser session = Some alice" and c: "activeChat session = Some room"
    by (simp_all add: session_def)
  have one: "sendMessage silentAI (1000, 1000) ''a'' Send_text session
               = (Resolved, appendTo (chat_id room) (newMessage 1000 1000 room alice ''a'' Send_text) session)"
    using sendMessage_plain [OF u c, where kind = Send_text and now = "(1000, 1000)"] by simp
  have u': "currentUser (appendTo (chat_id room) (newMessage 1000 1000 room alice ''a'' Send_text) session) = Some alice"
    and c': "activeChat (appendTo (chat_id room) (newMessage 1000 1000 room alice ''a'' Send_text) session) = Some room"
    by (simp_all add: appendTo_def session_def)
  have two: "sendMessage silentAI (1000, 1000) ''b'' Send_text
               (appendTo (chat_id room) (newMessage 1000 1000 room alice ''a'' Send_text) session)
             = (Resolved, appendTo (chat_id room) (newMessage 1000 1000 room alice ''b'' Send_text)
                  (appendTo (chat_id room) (newMessage 1000 1000 room alice ''a'' Send_text) session))"
    using sendMessage_plain [OF u' c', where kind = Send_text and now = "(1000, 1000)"] by simp
  have three: "sendMessage silentAI (1000, 1001) ''c'' Send_text session
               = (Resolved, appendTo (chat_id room) (newMessage 1000 1001 room alice ''c'' Send_text) session)"
    using sendMessage_plain [OF u c, where kind = Send_text and now = "(1000, 1001)"] by simp
  show ?thesis
    unfolding one snd_conv two three
    by (simp add: appendTo_def session_def newMessage_def number_1000 number_1001)
qed

section \<open>The location flow\<close>



lemma toLowerCase_geolocation:
  "toLowerCase ''[object GeolocationPositionError]'' \<noteq> ''[object object]''"
  by (simp add: toLowerCase_def)




















section \<open>The call lifecycle\<close>

lemma sendMessage_keeps_call:
  "activeCallType (snd (sendMessage askAI now contents kind s)) = activeCallType s
   \<and> localMediaStreamAndTracks (snd (sendMessage askAI now contents kind s))
       = localMediaStreamAndTracks s
   \<and> isCallViewVisible (snd (sendMessage askAI now contents kind s)) = isCallViewVisible s
   \<and> mediaCalls (snd (sendMessage askAI now contents kind s)) = mediaCalls s"
  by (simp add: sendMessage_def sendMessage_start_def sendMessage_resume_def addMessage_def Let_def
      split: option.splits ai_result.splits prod.splits)

lemma initiateCall_no_chat: "activeChat s = None \<Longrightarrow> initiateCall askAI started now callType s = s"
  by (simp add: initiateCall_def)

lemma initiateCall_started:
  "activeChat s = Some c \<Longrightarrow>
   initiateCall askAI (Media media) now callType s =
     snd (sendMessage askAI now
            (''Appel '' @ call_word callType @ '' d'' @ e_acute @ ''marr'' @ e_acute
               @ '' (simulation).'') Send_text
            (s\<lparr>mediaCalls := mediaCalls s @ [StartLocalMedia (callType = Request_VOICE)],
               localMediaStreamAndTracks := Some media,
               activeCallType := callType_of callType,
               isCallViewVisible := True\<rparr>))"
  by (simp add: initiateCall_def startLocalMedia_def Let_def)

lemma initiateCall_refused:
  "activeChat s = Some c \<Longrightarrow>
   initiateCall askAI (MediaError e) now callType s =
     snd (sendMessage askAI now
            (''Impossible de d'' @ e_acute @ ''marrer l'' @ apostrophe @ ''appel ''
               @ call_word callType @ ''.'') Send_text
            (s\<lparr>mediaCalls := mediaCalls s @ [StartLocalMedia (callType = Request_VOICE)]\<rparr>))"
  by (simp add: initiateCall_def startLocalMedia_def Let_def)

lemma callType_of_active: "callType_of callType \<noteq> NONE"
  by (cases callType) simp_all

lemma videoCall_unfolded:
  "videoCall = appendTo (chat_id room)
                (newMessage 1000 1000 room alice
                   (''Appel vid'' @ e_acute @ ''o d'' @ e_acute @ ''marr'' @ e_acute @ '' (simulation).'')
                   Send_text)
                (session\<lparr>mediaCalls := [StartLocalMedia False],
                   localMediaStreamAndTracks := Some (MediaStreamAndTracks 1),
                   activeCallType := VIDEO, isCallViewVisible := True\<rparr>)"
  by (simp add: videoCall_def initiateCall_def startLocalMedia_def Let_def session_def
        sendMessage_plain [where u = alice and c = room])

lemma endCall_failed:
  "endCall askAI (ReleaseFailed e) now s
     = (Threw e, s\<lparr>mediaCalls := mediaCalls s @ [StopLocalMedia]\<rparr>)"
  by (simp add: endCall_def stopLocalMedia_def)

text \<open>
  When the release returns, \<open>endCall\<close> resets the three call cells, and with an active chat
  it hands the status text to \<open>sendMessage\<close>, which stores it when a user is signed in.
\<close>

lemma endCall_released:
  "fst (endCall askAI Released now s) = Returned
   \<and> localMediaStreamAndTracks (snd (endCall askAI Released now s)) = None
   \<and> activeCallType (snd (endCall askAI Released now s)) = NONE
   \<and> \<not> isCallViewVisible (snd (endCall askAI Released now s))
   \<and> mediaCalls (snd (endCall askAI Released now s)) = mediaCalls s @ [StopLocalMedia]
   \<and> (activeChat s = None \<longrightarrow>
         snd (endCall askAI Released now s)
           = s\<lparr>mediaCalls := mediaCalls s @ [StopLocalMedia], localMediaStreamAndTracks := None,
               activeCallType := NONE, isCallViewVisible := False\<rparr>)
   \<and> (activeChat s \<noteq> None \<longrightarrow>
         snd (endCall askAI Released now s)
           = snd (sendMessage askAI now (''Appel termin'' @ e_acute @ '' (simulation).'') Send_text
                    (s\<lparr>mediaCalls := mediaCalls s @ [StopLocalMedia],
                       localMediaStreamAndTracks := None,
                       activeCallType := NONE, isCallViewVisible := False\<rparr>)))"
  by (cases "activeChat s")
     (simp_all add: endCall_def stopLocalMedia_def Let_def sendMessage_keeps_call)


text \<open>
  C10. With an active chat, \<open>initiateCall\<close> goes ahead whatever the call state is: when the
  media service delivers a stream, the stored handle is that new stream, the call state is
  the requested kind and the call view is visible; the only call made to the media service
  is the new \<open>startLocalMedia\<close>, so a stream held before is not released. Without an active
  chat nothing happens.
\<close>

theorem initiateCall_during_call:
  "(activeChat s = Some c \<longrightarrow>
      (let s' = initiateCall askAI (Media media) now callType s
       in localMediaStreamAndTracks s' = Some media
          \<and> activeCallType s' = callType_of callType
          \<and> isCallViewVisible s'
          \<and> mediaCalls s' = mediaCalls s @ [StartLocalMedia (callType = Request_VOICE)]
          \<and> StopLocalMedia \<notin> set (drop (length (mediaCalls s)) (mediaCalls s'))))
   \<and> (activeChat s = None \<longrightarrow> initiateCall askAI started now callType s = s)"
proof (intro conjI impI)
  assume "activeChat s = None"
  then show "initiateCall askAI started now callType s = s"
    by (rule initiateCall_no_chat)
next
  assume chat: "activeChat s = Some c"
  let ?s' = "initiateCall askAI (Media media) now callType s"
  have handle: "localMediaStreamAndTracks ?s' = Some media"
    and kind: "activeCallType ?s' = callType_of callType"
    and visible: "isCallViewVisible ?s'"
    and calls: "mediaCalls ?s' = mediaCalls s @ [StartLocalMedia (callType = Request_VOICE)]"
    by (simp_all add: initiateCall_started [OF chat] sendMessage_keeps_call)
  from calls have "StopLocalMedia \<notin> set (drop (length (mediaCalls s)) (mediaCalls ?s'))"
    by simp
  with handle kind visible calls
  show "let s' = ?s'
        in localMediaStreamAndTracks s' = Some media
           \<and> activeCallType s' = callType_of callType
           \<and> isCallViewVisible s'
           \<and> mediaCalls s' = mediaCalls s @ [StartLocalMedia (callType = Request_VOICE)]
           \<and> StopLocalMedia \<notin> set (drop (length (mediaCalls s)) (mediaCalls s'))"
    by (simp add: Let_def)
qed

theorem initiateCall_during_call_witness:
  "activeChat videoCall = Some room \<and> activeCallType videoCall = VIDEO
   \<and> localMediaStreamAndTracks videoCall = Some (MediaStreamAndTracks 1)
   \<and> localMediaStreamAndTracks
        (initiateCall silentAI (Media (MediaStreamAndTracks 2)) (2000, 2000) Request_VOICE videoCall)
       = Some (MediaStreamAndTracks 2)
   \<and> activeCallType
        (initiateCall silentAI (Media (MediaStreamAndTracks 2)) (2000, 2000) Request_VOICE videoCall)
       = VOICE
   \<and> mediaCalls
        (initiateCall silentAI (Media (MediaStreamAndTracks 2)) (2000, 2000) Request_VOICE videoCall)
       = [StartLocalMedia False, StartLocalMedia True]
   \<and> activeChat (session\<lparr>activeChat := None\<rparr>) = None
   \<and> initiateCall silentAI (Media (MediaStreamAndTracks 2)) (2000, 2000) Request_VOICE
        (session\<lparr>activeChat := None\<rparr>) = session\<lparr>activeChat := None\<rparr>"
proof -
  have c: "activeChat videoCall = Some room" and t: "activeCallType videoCall = VIDEO"
    and h: "localMediaStreamAndTracks videoCall = Some (MediaStreamAndTracks 1)"
    and l: "mediaCalls videoCall = [StartLocalMedia False]"
    by (simp_all add: videoCall_unfolded appendTo_def session_def)
  have n: "activeChat (session\<lparr>activeChat := None\<rparr>) = None"
    by simp
  from initiateCall_during_call [where s = videoCall and c = room and askAI = silentAI
      and media = "MediaStreamAndTracks 2" and now = "(2000, 2000)" and callType = Request_VOICE]
    initiateCall_during_call [where s = "session\<lparr>activeChat := None\<rparr>" and c = room
      and askAI = silentAI and started = "Media (MediaStreamAndTracks 2)"
      and now = "(2000, 2000)" and callType = Request_VOICE]
    c t h l n
  show ?thesis by (simp add: Let_def)
qed

text \<open>
  C7. In every state reached through \<open>initiateCall\<close> and \<open>endCall\<close>, a call state other than
  \<open>NONE\<close> comes with a stored stream handle, and the call view is hidden when the call
  state is \<open>NONE\<close>; indeed the call view is visible exactly when the call state is not
  \<open>NONE\<close>, since both are set together after a successful acquisition and reset together.
\<close>

theorem call_state_invariant:
  "reachable s \<Longrightarrow>
     (activeCallType s \<noteq> NONE \<longrightarrow> localMediaStreamAndTracks s \<noteq> None)
     \<and> (activeCallType s = NONE \<longrightarrow> \<not> isCallViewVisible s)
     \<and> (isCallViewVisible s \<longleftrightarrow> activeCallType s \<noteq> NONE)"
proof (induction rule: reachable.induct)
  case (no_call s)
  then show ?case by simp
next
  case (called s askAI started now callType)
  show ?case
  proof (cases "activeChat s")
    case None
    with called.IH show ?thesis by (simp add: initiateCall_no_chat)
  next
    case (Some c)
    show ?thesis
    proof (cases started)
      case (Media media)
      with Some show ?thesis
        by (simp add: initiateCall_started sendMessage_keeps_call callType_of_active)
    next
      case (MediaError e)
      with Some called.IH show ?thesis
        by (simp add: initiateCall_refused sendMessage_keeps_call)
    qed
  qed
next
  case (ended s askAI released now)
  show ?case
  proof (cases released)
    case Released
    then show ?thesis by (simp add: endCall_released)
  next
    case (ReleaseFailed e)
    with ended.IH show ?thesis by (simp add: endCall_failed)
  qed
qed

theorem call_state_invariant_witness:
  "reachable videoCall \<and> activeCallType videoCall \<noteq> NONE
   \<and> localMediaStreamAndTracks videoCall \<noteq> None \<and> isCallViewVisible videoCall
   \<and> reachable (snd (endCall silentAI Released (2000, 2000) videoCall))
   \<and> activeCallType (snd (endCall silentAI Released (2000, 2000) videoCall)) = NONE
   \<and> \<not> isCallViewVisible (snd (endCall silentAI Released (2000, 2000) videoCall))"
proof -
  have r0: "reachable session"
    by (rule reachable.no_call) (simp_all add: session_def)
  have r1: "reachable videoCall"
    unfolding videoCall_def by (rule reachable.called [OF r0])
  have r2: "reachable (snd (endCall silentAI Released (2000, 2000) videoCall))"
    by (rule reachable.ended [OF r1])
  have t: "activeCallType videoCall = VIDEO"
    by (simp add: videoCall_unfolded appendTo_def)
  have e: "activeCallType (snd (endCall silentAI Released (2000, 2000) videoCall)) = NONE"
    by (simp add: endCall_released)
  from call_state_invariant [OF r1] call_state_invariant [OF r2] r1 r2 t e
  show ?thesis by simp
qed

section \<open>The notification dispatcher\<close>




















end
